theory Spec2Isabelle
  imports Main
begin

section \<open>The Python API service (apps/python-api/src/main.py)\<close>

text \<open>
  The module registers two handlers on a FastAPI application: \<open>root\<close> for \<open>GET /\<close> and
  \<open>health\<close> for \<open>GET /health\<close>. The handlers touch three things outside the process:
  the logging system, the filesystem (through \<open>os.path.exists\<close>) and the hostname
  (through \<open>socket.gethostname\<close>). The embedding passes that external state explicitly
  as a record, turns a raised exception into the left summand of a result, and appends
  every external operation to a trace in the order the handler performs it. The calls
  into the Python library follow the library's own code: \<open>logging/__init__.py\<close>,
  \<open>genericpath.py\<close>, and the framework's JSON response.
\<close>

subsection \<open>Exceptions\<close>

text \<open>
  The exceptions that the calls of the module can meet. \<open>OSError\<close> carries its errno.
  \<open>UnicodeEncodeError\<close> is a subclass of \<open>ValueError\<close>.
\<close>

datatype py_error = OSError nat | ValueError | UnicodeEncodeError | RecursionError

fun is_OSError :: "py_error \<Rightarrow> bool" where
  "is_OSError (OSError n) = True"
| "is_OSError e = False"

fun is_ValueError :: "py_error \<Rightarrow> bool" where
  "is_ValueError ValueError = True"
| "is_ValueError UnicodeEncodeError = True"
| "is_ValueError e = False"

definition ENOENT :: nat where
  "ENOENT = 2"

definition EACCES :: nat where
  "EACCES = 13"

definition ELOOP :: nat where
  "ELOOP = 40"

subsection \<open>External state\<close>

text \<open>
  What a path of the filesystem holds: a file with its contents, a directory, or a
  symbolic link with the absolute path it points to.
\<close>

datatype node = File string | Directory | Symlink string

text \<open>The streams that log handlers write to, and what a write to a stream meets.\<close>

datatype stream = Stderr | Stdout | OtherStream nat

datatype stream_state = Open | Closed | Broken nat

text \<open>The operations on the outside world, as the trace records them.\<close>

datatype event =
    Emitted nat string
  | StatCall string
  | GetHostnameCall

text \<open>A log record, with the attributes that formatters of this service read.\<close>

record log_record =
  asctime :: string
  levelno :: nat
  levelname :: string
  message :: string

text \<open>A stream handler: its level, its formatter and its stream.\<close>

record log_handler =
  h_level :: nat
  h_format :: "log_record \<Rightarrow> string"
  h_stream :: stream

text \<open>
  \<open>fs\<close> maps each existing path to its node. \<open>stat_errno\<close> gives, for a path that the
  \<open>stat\<close> system call cannot reach, the errno it fails with (\<open>EACCES\<close> for a directory on
  the way without search permission, \<open>ENOTDIR\<close>, \<open>ENAMETOOLONG\<close>), whether or not
  something is at the path. \<open>hostname\<close> is what the operating system answers to
  \<open>gethostname\<close>: an errno, or the bytes of the name. \<open>clock\<close> is the rendering of the
  current time that a formatter substitutes for \<open>%(asctime)s\<close>. \<open>root_level\<close> and
  \<open>root_handlers\<close> are the level and the handlers of the root logger. \<open>streams\<close> tells
  what a write to each stream meets, \<open>written\<close> holds the lines written so far, without
  their terminator, and \<open>trace\<close> the external operations so far.
\<close>

record world =
  fs :: "string \<rightharpoonup> node"
  stat_errno :: "string \<rightharpoonup> nat"
  hostname :: "nat + string"
  clock :: string
  root_level :: nat
  root_handlers :: "log_handler list"
  streams :: "stream \<Rightarrow> stream_state"
  written :: "(stream \<times> string) list"
  trace :: "event list"

subsection \<open>Logging (lines 8 to 13 and 17)\<close>

definition NOTSET :: nat where
  "NOTSET = 0"

definition INFO :: nat where
  "INFO = 20"

definition WARNING :: nat where
  "WARNING = 30"

text \<open>
  The format string of line 11,
  \<^verbatim>\<open>{"timestamp":"%(asctime)s","level":"%(levelname)s","message":"%(message)s"}\<close>,
  with its three fields substituted from the record.
\<close>

definition dq :: string where
  "dq = [CHR 0x22]"

definition format_record :: "log_record \<Rightarrow> string" where
  "format_record r =
     ''{'' @ dq @ ''timestamp'' @ dq @ '':'' @ dq @ asctime r @ dq @ '','' @
     dq @ ''level'' @ dq @ '':'' @ dq @ levelname r @ dq @ '','' @
     dq @ ''message'' @ dq @ '':'' @ dq @ message r @ dq @ ''}''"

text \<open>
  \<open>logging.basicConfig(level=..., format=...)\<close> does something only when the root logger
  has no handler yet: then it adds one \<open>StreamHandler\<close> on \<open>sys.stderr\<close> with the format
  and sets the level of the root logger. Otherwise the root logger stays as it was.
\<close>

definition basicConfig :: "nat \<Rightarrow> (log_record \<Rightarrow> string) \<Rightarrow> world \<Rightarrow> world" where
  "basicConfig level fmt w =
     (case root_handlers w of
        [] \<Rightarrow> w\<lparr>root_level := level,
                 root_handlers := [\<lparr>h_level = NOTSET, h_format = fmt, h_stream = Stderr\<rparr>]\<rparr>
      | h # hs \<Rightarrow> w)"

text \<open>What importing the module does to the outside world: lines 9 to 12.\<close>

definition module_init :: "world \<Rightarrow> world" where
  "module_init w = basicConfig INFO format_record w"

text \<open>
  Writing a line to a stream: it is written when the stream is open; the write raises
  \<open>ValueError\<close> on a closed file and \<open>OSError\<close> on a broken one.
\<close>

definition stream_write :: "stream \<Rightarrow> string \<Rightarrow> world \<Rightarrow> (py_error + unit) \<times> world" where
  "stream_write s line w =
     (case streams w s of
        Open \<Rightarrow> (Inr (), w\<lparr>written := written w @ [(s, line)]\<rparr>)
      | Closed \<Rightarrow> (Inl ValueError, w)
      | Broken n \<Rightarrow> (Inl (OSError n), w))"

text \<open>
  \<open>Handler.handleError\<close>, with \<open>logging.raiseExceptions\<close> at its default, reports
  the failure on \<open>sys.stderr\<close>, starting with the line below (the traceback that
  follows it is left out), inside \<open>try\<close> with \<open>except OSError: pass\<close>; any other
  exception of that write leaves the function.
\<close>

definition handleError :: "world \<Rightarrow> (py_error + unit) \<times> world" where
  "handleError w =
     (case stream_write Stderr ''--- Logging error ---'' w of
        (Inr u, w') \<Rightarrow> (Inr (), w')
      | (Inl e, w') \<Rightarrow> (if is_OSError e then (Inr (), w') else (Inl e, w')))"

text \<open>
  \<open>StreamHandler.emit\<close>: format the record and write it; \<open>except RecursionError: raise\<close>,
  \<open>except Exception: self.handleError(record)\<close>.
\<close>

definition emit :: "log_handler \<Rightarrow> log_record \<Rightarrow> world \<Rightarrow> (py_error + unit) \<times> world" where
  "emit h r w =
     (case stream_write (h_stream h) (h_format h r) w of
        (Inr u, w') \<Rightarrow> (Inr (), w'\<lparr>trace := trace w' @ [Emitted (levelno r) (message r)]\<rparr>)
      | (Inl e, w') \<Rightarrow> (if e = RecursionError then (Inl e, w') else handleError w'))"

text \<open>
  \<open>Logger.callHandlers\<close>: the module's logger has no handler of its own and propagates,
  so the handlers are those of the root logger, each called when its level admits the
  record. With no handler at all the record goes to \<open>logging.lastResort\<close>, a handler on
  \<open>sys.stderr\<close> at level \<open>WARNING\<close> that writes the bare message.
\<close>

fun call_each :: "log_handler list \<Rightarrow> log_record \<Rightarrow> world \<Rightarrow> (py_error + unit) \<times> world" where
  "call_each [] r w = (Inr (), w)"
| "call_each (h # hs) r w =
     (if h_level h \<le> levelno r
      then (case emit h r w of
              (Inl e, w') \<Rightarrow> (Inl e, w')
            | (Inr u, w') \<Rightarrow> call_each hs r w')
      else call_each hs r w)"

definition lastResort :: log_handler where
  "lastResort = \<lparr>h_level = WARNING, h_format = message, h_stream = Stderr\<rparr>"

definition callHandlers :: "log_record \<Rightarrow> world \<Rightarrow> (py_error + unit) \<times> world" where
  "callHandlers r w =
     (case root_handlers w of
        [] \<Rightarrow> (if h_level lastResort \<le> levelno r then emit lastResort r w else (Inr (), w))
      | h # hs \<Rightarrow> call_each (h # hs) r w)"

text \<open>
  \<open>logger = logging.getLogger(__name__)\<close> has no level of its own, so its effective level
  is the root logger's. \<open>logger.info(msg)\<close> makes a record and hands it to the handlers
  when \<open>INFO\<close> is enabled at that level, and does nothing otherwise.
\<close>

definition logger_info :: "string \<Rightarrow> world \<Rightarrow> (py_error + unit) \<times> world" where
  "logger_info msg w =
     (if root_level w \<le> INFO
      then callHandlers \<lparr>asctime = clock w, levelno = INFO, levelname = ''INFO'', message = msg\<rparr> w
      else (Inr (), w))"

subsection \<open>The library calls of the root handler\<close>

text \<open>
  The \<open>stat\<close> system call on a path: it fails with the errno of \<open>stat_errno\<close> where the
  path cannot be reached, with \<open>ENOENT\<close> where nothing is at the path, follows a symbolic
  link to its target, and gives up with \<open>ELOOP\<close> after 40 links.
\<close>

fun stat_follow :: "nat \<Rightarrow> (string \<rightharpoonup> node) \<Rightarrow> (string \<rightharpoonup> nat) \<Rightarrow> string \<Rightarrow> py_error + node" where
  "stat_follow 0 f d p = Inl (OSError ELOOP)"
| "stat_follow (Suc k) f d p =
     (case d p of
        Some errno \<Rightarrow> Inl (OSError errno)
      | None \<Rightarrow>
          (case f p of
             None \<Rightarrow> Inl (OSError ENOENT)
           | Some (Symlink t) \<Rightarrow> stat_follow k f d t
           | Some n \<Rightarrow> Inr n))"

text \<open>
  \<open>os.stat(path)\<close> for a \<open>str\<close> path: \<open>ValueError\<close> for an embedded null character,
  otherwise the result of the system call or its \<open>OSError\<close>.
\<close>

definition os_stat :: "string \<Rightarrow> world \<Rightarrow> (py_error + node) \<times> world" where
  "os_stat p w =
     ((if CHR 0x00 \<in> set p then Inl ValueError
       else stat_follow 41 (fs w) (stat_errno w) p),
      w\<lparr>trace := trace w @ [StatCall p]\<rparr>)"

text \<open>
  \<open>os.path.exists(path)\<close> (\<open>genericpath.exists\<close>):
  \<^verbatim>\<open>try: os.stat(path)\<close>, \<^verbatim>\<open>except (OSError, ValueError): return False\<close>,
  \<^verbatim>\<open>return True\<close>. An exception of another class is not caught.
\<close>

definition os_path_exists :: "string \<Rightarrow> world \<Rightarrow> (py_error + bool) \<times> world" where
  "os_path_exists p w =
     (case os_stat p w of
        (Inl e, w') \<Rightarrow> (if is_OSError e \<or> is_ValueError e then (Inr False, w') else (Inl e, w'))
      | (Inr n, w') \<Rightarrow> (Inr True, w'))"

text \<open>
  \<open>socket.gethostname()\<close>: the name, or the \<open>OSError\<close> of the system call raised. The
  name is kept as the bytes the system returned; Python decodes them as UTF-8 and
  carries each undecodable byte as a lone surrogate.
\<close>

definition socket_gethostname :: "world \<Rightarrow> (py_error + string) \<times> world" where
  "socket_gethostname w =
     ((case hostname w of Inl errno \<Rightarrow> Inl (OSError errno) | Inr name \<Rightarrow> Inr name),
      w\<lparr>trace := trace w @ [GetHostnameCall]\<rparr>)"

subsection \<open>The handlers (lines 15 to 28)\<close>

text \<open>The values of the returned dictionaries, and a dictionary in insertion order.\<close>

datatype json = JStr string | JBool bool

type_synonym body = "(string \<times> json) list"

text \<open>
  \<open>root\<close>: the log call, then the existence check, then the dictionary display, whose
  values are evaluated in order, so \<open>socket.gethostname()\<close> runs last. The function has
  no \<open>try\<close>: an exception of any of the three calls leaves the function at once.
\<close>

definition root :: "world \<Rightarrow> (py_error + body) \<times> world" where
  "root w0 =
     (case logger_info ''Root endpoint called'' w0 of
        (Inl e, w1) \<Rightarrow> (Inl e, w1)
      | (Inr u, w1) \<Rightarrow>
          (case os_path_exists ''/vault/secrets/config'' w1 of
             (Inl e, w2) \<Rightarrow> (Inl e, w2)
           | (Inr vault_injected, w2) \<Rightarrow>
               (case socket_gethostname w2 of
                  (Inl e, w3) \<Rightarrow> (Inl e, w3)
                | (Inr host, w3) \<Rightarrow>
                    (Inr [(''service'', JStr ''python-api''),
                          (''message'', JStr ''Hello from Python!''),
                          (''host'', JStr host),
                          (''vault_injected'', JBool vault_injected)], w3))))"

definition health :: "world \<Rightarrow> (py_error + body) \<times> world" where
  "health w = (Inr [(''status'', JStr ''healthy'')], w)"

subsection \<open>Routing and rendering (the decorators of lines 15 and 26)\<close>

text \<open>
  The framework renders a returned dictionary with \<open>json.dumps(...).encode("utf-8")\<close>.
  The encoding raises \<open>UnicodeEncodeError\<close> on a lone surrogate, that is, when the bytes
  a string came from are not well-formed UTF-8. \<open>utf8_ok\<close> is the table of well-formed
  byte sequences of the Unicode standard.
\<close>

definition is_tail :: "nat \<Rightarrow> bool" where
  "is_tail b = (0x80 \<le> b \<and> b \<le> 0xBF)"

fun utf8_ok :: "nat list \<Rightarrow> bool" where
  "utf8_ok [] = True"
| "utf8_ok (b # bs) =
     (if b \<le> 0x7F then utf8_ok bs
      else if 0xC2 \<le> b \<and> b \<le> 0xDF then
        (case bs of
           t1 # r \<Rightarrow> is_tail t1 \<and> utf8_ok r
         | _ \<Rightarrow> False)
      else if 0xE0 \<le> b \<and> b \<le> 0xEF then
        (case bs of
           t1 # t2 # r \<Rightarrow>
             (if b = 0xE0 then 0xA0 \<le> t1 \<and> t1 \<le> 0xBF
              else if b = 0xED then 0x80 \<le> t1 \<and> t1 \<le> 0x9F
              else is_tail t1) \<and>
             is_tail t2 \<and> utf8_ok r
         | _ \<Rightarrow> False)
      else if 0xF0 \<le> b \<and> b \<le> 0xF4 then
        (case bs of
           t1 # t2 # t3 # r \<Rightarrow>
             (if b = 0xF0 then 0x90 \<le> t1 \<and> t1 \<le> 0xBF
              else if b = 0xF4 then 0x80 \<le> t1 \<and> t1 \<le> 0x8F
              else is_tail t1) \<and>
             is_tail t2 \<and> is_tail t3 \<and> utf8_ok r
         | _ \<Rightarrow> False)
      else False)"

definition encodable :: "string \<Rightarrow> bool" where
  "encodable s = utf8_ok (map of_char s)"

fun json_encodable :: "json \<Rightarrow> bool" where
  "json_encodable (JStr s) = encodable s"
| "json_encodable (JBool b) = True"

definition renderable :: "body \<Rightarrow> bool" where
  "renderable b = list_all (\<lambda>(k, v). encodable k \<and> json_encodable v) b"

datatype http_method = GET | HEAD | POST | PUT | DELETE | PATCH | OPTIONS

record request =
  meth :: http_method
  url_path :: string

text \<open>
  What the application answers: the handler's dictionary as a JSON body under the
  route's status code; the server error that the framework makes of an exception
  raised by the handler or by the rendering of its result; or, when none of the
  module's routes matches, the framework's own answer (its documentation routes
  \<open>/openapi.json\<close>, \<open>/docs\<close>, \<open>/docs/oauth2-redirect\<close> and \<open>/redoc\<close>, a redirect, or
  an error for an unknown path or method).
\<close>

datatype outcome = Reply nat body | ServerError py_error | FrameworkAnswer

type_synonym handler = "world \<Rightarrow> (py_error + body) \<times> world"

text \<open>\<open>@app.get("/")\<close> and \<open>@app.get("/health")\<close>, in the order of registration.\<close>

definition routes :: "(http_method \<times> string \<times> handler) list" where
  "routes = [(GET, ''/'', root), (GET, ''/health'', health)]"

fun find_route :: "http_method \<Rightarrow> string \<Rightarrow> (http_method \<times> string \<times> handler) list \<Rightarrow> handler option" where
  "find_route m p [] = None"
| "find_route m p ((m', p', h) # rs) = (if m = m' \<and> p = p' then Some h else find_route m p rs)"

text \<open>A route declared with \<open>@app.get\<close> and no \<open>status_code\<close> answers with status 200.\<close>

definition app :: "request \<Rightarrow> world \<Rightarrow> outcome \<times> world" where
  "app r w =
     (case find_route (meth r) (url_path r) routes of
        None \<Rightarrow> (FrameworkAnswer, w)
      | Some h \<Rightarrow>
          (case h w of
             (Inl e, w') \<Rightarrow> (ServerError e, w')
           | (Inr b, w') \<Rightarrow>
               (if renderable b then (Reply 200 b, w')
                else (ServerError UnicodeEncodeError, w'))))"

text \<open>The value under a key of the body a handler returned, if it returned one.\<close>

definition field :: "string \<Rightarrow> py_error + body \<Rightarrow> json option" where
  "field k r = (case r of Inl e \<Rightarrow> None | Inr b \<Rightarrow> map_of b k)"

subsection \<open>Sample states\<close>

text \<open>
  \<open>world_boot\<close> is a pod before the module is imported: the root logger as Python
  creates it (level \<open>WARNING\<close>, no handler), all streams open, no secret. The others
  differ from it after the import in one respect each: the secret written by the
  sidecar; the same pod later; an empty hostname; a failing hostname call; a secret
  under a directory without search permission; a secret that is a dangling symbolic
  link; a closed \<open>sys.stderr\<close>; and a root logger that already had a handler when the
  module was imported.
\<close>

definition world_boot :: world where
  "world_boot =
     \<lparr>fs = Map.empty,
      stat_errno = Map.empty,
      hostname = Inr ''python-api-7d9f'',
      clock = ''2024-01-01 00:00:00,000'',
      root_level = WARNING,
      root_handlers = [],
      streams = (\<lambda>s. Open),
      written = [],
      trace = []\<rparr>"

definition world_plain :: world where
  "world_plain = module_init world_boot"

definition world_injected :: world where
  "world_injected = world_plain\<lparr>fs := [''/vault/secrets/config'' \<mapsto> File ''key=value'']\<rparr>"

definition world_injected_later :: world where
  "world_injected_later =
     world_plain
       \<lparr>fs := [''/vault/secrets/config'' \<mapsto> File ''key=rotated'', ''/tmp'' \<mapsto> Directory],
        clock := ''2024-06-30 12:00:00,000'',
        written := [(Stderr, ''earlier line'')],
        trace := [GetHostnameCall]\<rparr>"

definition world_unnamed :: world where
  "world_unnamed = world_plain\<lparr>hostname := Inr []\<rparr>"

definition world_no_hostname :: world where
  "world_no_hostname = world_plain\<lparr>hostname := Inl 14\<rparr>"

definition world_denied :: world where
  "world_denied = world_injected\<lparr>stat_errno := [''/vault/secrets/config'' \<mapsto> EACCES]\<rparr>"

definition world_dangling :: world where
  "world_dangling =
     world_plain\<lparr>fs := [''/vault/secrets/config'' \<mapsto> Symlink ''/vault/secrets/..data/config'']\<rparr>"

definition world_stderr_closed :: world where
  "world_stderr_closed = world_injected\<lparr>streams := (\<lambda>s. Closed)\<rparr>"

definition world_preconfigured :: world where
  "world_preconfigured =
     module_init
       (world_boot\<lparr>root_handlers :=
          [\<lparr>h_level = NOTSET, h_format = message, h_stream = Stdout\<rparr>]\<rparr>)"

section \<open>Properties\<close>

lemmas sample_defs =
  world_boot_def world_plain_def world_injected_def world_injected_later_def world_unnamed_def
  world_no_hostname_def world_denied_def world_dangling_def world_stderr_closed_def
  world_preconfigured_def module_init_def basicConfig_def

lemma sample_fs [simp]:
  "fs world_plain = Map.empty"
  "fs world_injected = [''/vault/secrets/config'' \<mapsto> File ''key=value'']"
  "fs world_injected_later =
     [''/vault/secrets/config'' \<mapsto> File ''key=rotated'', ''/tmp'' \<mapsto> Directory]"
  "fs world_denied = [''/vault/secrets/config'' \<mapsto> File ''key=value'']"
  "fs world_dangling = [''/vault/secrets/config'' \<mapsto> Symlink ''/vault/secrets/..data/config'']"
  "fs world_stderr_closed = [''/vault/secrets/config'' \<mapsto> File ''key=value'']"
  "fs world_unnamed = Map.empty"
  "fs world_no_hostname = Map.empty"
  by (simp_all add: sample_defs)

lemma sample_stat_errno [simp]:
  "stat_errno world_plain = Map.empty"
  "stat_errno world_injected = Map.empty"
  "stat_errno world_injected_later = Map.empty"
  "stat_errno world_denied = [''/vault/secrets/config'' \<mapsto> EACCES]"
  "stat_errno world_dangling = Map.empty"
  "stat_errno world_stderr_closed = Map.empty"
  "stat_errno world_unnamed = Map.empty"
  "stat_errno world_no_hostname = Map.empty"
  by (simp_all add: sample_defs)

lemma sample_hostname [simp]:
  "hostname world_plain = Inr ''python-api-7d9f''"
  "hostname world_injected = Inr ''python-api-7d9f''"
  "hostname world_injected_later = Inr ''python-api-7d9f''"
  "hostname world_denied = Inr ''python-api-7d9f''"
  "hostname world_dangling = Inr ''python-api-7d9f''"
  "hostname world_stderr_closed = Inr ''python-api-7d9f''"
  "hostname world_unnamed = Inr []"
  "hostname world_no_hostname = Inl 14"
  by (simp_all add: sample_defs)

subsection \<open>Helper facts: what the logging calls leave unchanged\<close>

lemma stream_write_frame [simp]:
  "fs (snd (stream_write s l w)) = fs w"
  "stat_errno (snd (stream_write s l w)) = stat_errno w"
  "hostname (snd (stream_write s l w)) = hostname w"
  "clock (snd (stream_write s l w)) = clock w"
  "root_level (snd (stream_write s l w)) = root_level w"
  "root_handlers (snd (stream_write s l w)) = root_handlers w"
  "streams (snd (stream_write s l w)) = streams w"
  by (simp_all add: stream_write_def split: stream_state.splits)

lemma handleError_frame [simp]:
  "fs (snd (handleError w)) = fs w"
  "stat_errno (snd (handleError w)) = stat_errno w"
  "hostname (snd (handleError w)) = hostname w"
  "clock (snd (handleError w)) = clock w"
  "root_level (snd (handleError w)) = root_level w"
  "root_handlers (snd (handleError w)) = root_handlers w"
  "streams (snd (handleError w)) = streams w"
  by (simp_all add: handleError_def stream_write_def split: stream_state.splits)

lemma emit_frame [simp]:
  "fs (snd (emit h r w)) = fs w"
  "stat_errno (snd (emit h r w)) = stat_errno w"
  "hostname (snd (emit h r w)) = hostname w"
  "clock (snd (emit h r w)) = clock w"
  "root_level (snd (emit h r w)) = root_level w"
  "root_handlers (snd (emit h r w)) = root_handlers w"
  "streams (snd (emit h r w)) = streams w"
  by (simp_all add: emit_def handleError_def stream_write_def split: stream_state.splits)

lemma call_each_frame [simp]:
  "fs (snd (call_each hs r w)) = fs w \<and>
   stat_errno (snd (call_each hs r w)) = stat_errno w \<and>
   hostname (snd (call_each hs r w)) = hostname w \<and>
   clock (snd (call_each hs r w)) = clock w \<and>
   root_level (snd (call_each hs r w)) = root_level w \<and>
   root_handlers (snd (call_each hs r w)) = root_handlers w \<and>
   streams (snd (call_each hs r w)) = streams w"
proof (induction hs arbitrary: w)
  case Nil
  show ?case by simp
next
  case (Cons h hs)
  show ?case
  proof (cases "h_level h \<le> levelno r")
    case False
    with Cons show ?thesis by simp
  next
    case True
    obtain res w' where e: "emit h r w = (res, w')"
      by (cases "emit h r w")
    have fr: "fs w' = fs w" "stat_errno w' = stat_errno w" "hostname w' = hostname w"
      "clock w' = clock w" "root_level w' = root_level w" "root_handlers w' = root_handlers w"
      "streams w' = streams w"
      using emit_frame [of h r w] e by simp_all
    show ?thesis
    proof (cases res)
      case (Inl err)
      with True e fr show ?thesis by simp
    next
      case (Inr u)
      with True e fr Cons [of w'] show ?thesis by simp
    qed
  qed
qed

lemma logger_info_frame [simp]:
  "fs (snd (logger_info msg w)) = fs w"
  "stat_errno (snd (logger_info msg w)) = stat_errno w"
  "hostname (snd (logger_info msg w)) = hostname w"
  "clock (snd (logger_info msg w)) = clock w"
  "root_level (snd (logger_info msg w)) = root_level w"
  "root_handlers (snd (logger_info msg w)) = root_handlers w"
  "streams (snd (logger_info msg w)) = streams w"
  by (cases "root_handlers w"; simp add: logger_info_def callHandlers_def del: call_each.simps)+

text \<open>Whether the log call raises depends on the logging configuration and the streams only.\<close>

lemma emit_outcome:
  "streams w1 = streams w2 \<Longrightarrow> fst (emit h r1 w1) = fst (emit h r2 w2)"
  by (simp add: emit_def handleError_def stream_write_def split: stream_state.splits)

lemma call_each_outcome:
  "streams w1 = streams w2 \<Longrightarrow> levelno r1 = levelno r2 \<Longrightarrow>
   fst (call_each hs r1 w1) = fst (call_each hs r2 w2)"
proof (induction hs arbitrary: w1 w2)
  case Nil
  show ?case by simp
next
  case (Cons h hs)
  show ?case
  proof (cases "h_level h \<le> levelno r1")
    case False
    with Cons show ?thesis by simp
  next
    case True
    obtain res1 v1 where e1: "emit h r1 w1 = (res1, v1)"
      by (cases "emit h r1 w1")
    obtain res2 v2 where e2: "emit h r2 w2 = (res2, v2)"
      by (cases "emit h r2 w2")
    have same: "res1 = res2"
      using emit_outcome [OF Cons.prems(1), of h r1 r2] e1 e2 by simp
    have st: "streams v1 = streams v2"
      using emit_frame(7) [of h r1 w1] emit_frame(7) [of h r2 w2] e1 e2 Cons.prems(1) by simp
    show ?thesis
    proof (cases res1)
      case (Inl err)
      then have "res2 = Inl err" using same by simp
      with Inl True e1 e2 Cons.prems show ?thesis by simp
    next
      case (Inr u)
      then have "res2 = Inr u" using same by simp
      with Inr True e1 e2 Cons.prems Cons.IH [OF st Cons.prems(2)] show ?thesis by simp
    qed
  qed
qed

lemma logger_info_outcome:
  assumes "root_level w1 = root_level w2" and "root_handlers w1 = root_handlers w2"
    and "streams w1 = streams w2"
  shows "fst (logger_info msg w1) = fst (logger_info msg w2)"
proof (cases "root_handlers w2")
  case Nil
  with assms show ?thesis
    by (simp add: logger_info_def callHandlers_def emit_outcome [of w1 w2])
next
  case (Cons h hs)
  with assms show ?thesis
    using call_each_outcome [of w1 w2
        "\<lparr>asctime = clock w1, levelno = INFO, levelname = ''INFO'', message = msg\<rparr>"
        "\<lparr>asctime = clock w2, levelno = INFO, levelname = ''INFO'', message = msg\<rparr>" "h # hs"]
    by (simp add: logger_info_def callHandlers_def del: call_each.simps)
qed

subsection \<open>Helper facts: the existence check\<close>

lemma stat_follow_numeral:
  "stat_follow (numeral k) f d p =
     (case d p of
        Some errno \<Rightarrow> Inl (OSError errno)
      | None \<Rightarrow>
          (case f p of
             None \<Rightarrow> Inl (OSError ENOENT)
           | Some (Symlink t) \<Rightarrow> stat_follow (pred_numeral k) f d t
           | Some n \<Rightarrow> Inr n))"
  by (simp add: numeral_eq_Suc)

lemma stat_follow_error: "stat_follow k f d p = Inl e \<Longrightarrow> is_OSError e"
  by (induction k arbitrary: p) (auto split: option.splits node.splits)

lemma os_stat_error: "fst (os_stat p w) = Inl e \<Longrightarrow> is_OSError e \<or> is_ValueError e"
  by (auto simp: os_stat_def split: if_splits dest: stat_follow_error)

lemma os_stat_absent: "fs w p = None \<Longrightarrow> isl (fst (os_stat p w))"
  by (simp add: os_stat_def stat_follow_numeral split: option.splits)


lemma os_path_exists_result:
  "fst (os_path_exists p w) = Inr (\<not> isl (fst (os_stat p w)))"
proof (cases "fst (os_stat p w)")
  case (Inl e)
  with os_stat_error [of p w e] show ?thesis
    by (cases "os_stat p w") (simp add: os_path_exists_def)
next
  case (Inr n)
  then show ?thesis
    by (cases "os_stat p w") (simp add: os_path_exists_def)
qed

lemma os_path_exists_world:
  "snd (os_path_exists p w) = w\<lparr>trace := trace w @ [StatCall p]\<rparr>"
proof -
  have "snd (os_path_exists p w) = snd (os_stat p w)"
    by (cases "os_stat p w") (simp add: os_path_exists_def split: sum.splits)
  then show ?thesis
    by (simp add: os_stat_def)
qed

lemma os_stat_after_log:
  "fst (os_stat p (snd (logger_info msg w))) = fst (os_stat p w)"
  by (simp add: os_stat_def)

subsection \<open>Helper facts: the handlers and the application\<close>

lemma root_result:
  "fst (root w) =
     (case fst (logger_info ''Root endpoint called'' w) of
        Inl e \<Rightarrow> Inl e
      | Inr u \<Rightarrow>
          (case hostname w of
             Inl errno \<Rightarrow> Inl (OSError errno)
           | Inr host \<Rightarrow>
               Inr [(''service'', JStr ''python-api''),
                    (''message'', JStr ''Hello from Python!''),
                    (''host'', JStr host),
                    (''vault_injected'',
                     JBool (\<not> isl (fst (os_stat ''/vault/secrets/config'' w))))]))"
proof -
  obtain lr w1 where l: "logger_info ''Root endpoint called'' w = (lr, w1)"
    by (cases "logger_info ''Root endpoint called'' w")
  obtain xr w2 where x: "os_path_exists ''/vault/secrets/config'' w1 = (xr, w2)"
    by (cases "os_path_exists ''/vault/secrets/config'' w1")
  have w1: "w1 = snd (logger_info ''Root endpoint called'' w)"
    using l by simp
  have xr: "xr = Inr (\<not> isl (fst (os_stat ''/vault/secrets/config'' w)))"
    using os_path_exists_result [of "''/vault/secrets/config''" w1] x
    by (simp add: w1 os_stat_after_log)
  have w2: "w2 = w1\<lparr>trace := trace w1 @ [StatCall ''/vault/secrets/config'']\<rparr>"
    using os_path_exists_world [of "''/vault/secrets/config''" w1] x by simp
  have h2: "hostname w2 = hostname w"
    by (simp add: w2 w1)
  show ?thesis
    using l x xr h2
    by (cases lr; cases "hostname w") (simp_all add: root_def socket_gethostname_def)
qed

lemma find_route_root [simp]: "find_route GET ''/'' routes = Some root"
  by (simp add: routes_def)

lemma find_route_health [simp]: "find_route GET ''/health'' routes = Some health"
  by (simp add: routes_def)

lemma find_route_cases:
  "find_route m p routes = None \<or> find_route m p routes = Some root \<or>
   find_route m p routes = Some health"
  by (simp add: routes_def)

lemma app_result:
  "fst (app r w) =
     (case find_route (meth r) (url_path r) routes of
        None \<Rightarrow> FrameworkAnswer
      | Some h \<Rightarrow>
          (case fst (h w) of
             Inl e \<Rightarrow> ServerError e
           | Inr b \<Rightarrow> if renderable b then Reply 200 b else ServerError UnicodeEncodeError))"
  by (simp add: app_def split: option.splits prod.splits sum.splits)

lemma app_world:
  "snd (app r w) =
     (case find_route (meth r) (url_path r) routes of None \<Rightarrow> w | Some h \<Rightarrow> snd (h w))"
  by (simp add: app_def split: option.splits prod.splits sum.splits)

lemma encodable_literals [simp]:
  "encodable ''service''" "encodable ''message''" "encodable ''host''"
  "encodable ''vault_injected''" "encodable ''status''"
  "encodable ''python-api''" "encodable ''Hello from Python!''" "encodable ''healthy''"
  by (simp_all add: encodable_def)

lemma renderable_root_body:
  "renderable [(''service'', JStr ''python-api''), (''message'', JStr ''Hello from Python!''),
               (''host'', JStr h), (''vault_injected'', JBool v)] = encodable h"
  by (simp add: renderable_def)

lemma root_world:
  "snd (root w) =
     (case fst (logger_info ''Root endpoint called'' w) of
        Inl e \<Rightarrow> snd (logger_info ''Root endpoint called'' w)
      | Inr u \<Rightarrow>
          (snd (logger_info ''Root endpoint called'' w))
            \<lparr>trace := trace (snd (logger_info ''Root endpoint called'' w)) @
               [StatCall ''/vault/secrets/config'', GetHostnameCall]\<rparr>)"
proof -
  obtain lr w1 where l: "logger_info ''Root endpoint called'' w = (lr, w1)"
    by (cases "logger_info ''Root endpoint called'' w")
  obtain xr w2 where x: "os_path_exists ''/vault/secrets/config'' w1 = (xr, w2)"
    by (cases "os_path_exists ''/vault/secrets/config'' w1")
  have xr: "xr = Inr (\<not> isl (fst (os_stat ''/vault/secrets/config'' w1)))"
    using os_path_exists_result [of "''/vault/secrets/config''" w1] x by simp
  have w2: "w2 = w1\<lparr>trace := trace w1 @ [StatCall ''/vault/secrets/config'']\<rparr>"
    using os_path_exists_world [of "''/vault/secrets/config''" w1] x by simp
  show ?thesis
    using l x xr w2
    by (cases lr; cases "hostname w1") (simp_all add: root_def socket_gethostname_def)
qed


subsection \<open>Helper facts: the sample states\<close>

lemma log_closed_sample [simp]:
  "fst (logger_info msg world_stderr_closed) = Inl ValueError"
  by (simp add: logger_info_def callHandlers_def emit_def handleError_def stream_write_def
      sample_defs NOTSET_def)

lemma log_ok_fst [simp]:
  "fst (logger_info msg world_plain) = Inr ()"
  "fst (logger_info msg world_injected) = Inr ()"
  "fst (logger_info msg world_injected_later) = Inr ()"
  "fst (logger_info msg world_unnamed) = Inr ()"
  "fst (logger_info msg world_no_hostname) = Inr ()"
  "fst (logger_info msg world_denied) = Inr ()"
  "fst (logger_info msg world_dangling) = Inr ()"
  by (simp_all add: logger_info_def callHandlers_def emit_def stream_write_def sample_defs
      NOTSET_def)

lemma sample_stat [simp]:
  "fst (os_stat ''/vault/secrets/config'' world_plain) = Inl (OSError ENOENT)"
  "fst (os_stat ''/vault/secrets/config'' world_injected) = Inr (File ''key=value'')"
  "fst (os_stat ''/vault/secrets/config'' world_injected_later) = Inr (File ''key=rotated'')"
  "fst (os_stat ''/vault/secrets/config'' world_denied) = Inl (OSError EACCES)"
  "fst (os_stat ''/vault/secrets/config'' world_dangling) = Inl (OSError ENOENT)"
  "fst (os_stat ''/vault/secrets/config'' world_stderr_closed) = Inr (File ''key=value'')"
  "fst (os_stat ''/vault/secrets/config'' world_unnamed) = Inl (OSError ENOENT)"
  "fst (os_stat ''/vault/secrets/config'' world_no_hostname) = Inl (OSError ENOENT)"
  by (simp_all add: os_stat_def stat_follow_numeral)

lemma sample_streams [simp]:
  "streams world_injected = (\<lambda>s. Open)"
  "streams world_injected_later = (\<lambda>s. Open)"
  "root_level world_injected = root_level world_injected_later"
  "root_handlers world_injected = root_handlers world_injected_later"
  by (simp_all add: sample_defs)

subsection \<open>The health endpoint\<close>

text \<open>
  Claim C2. Every \<open>GET /health\<close> request is answered with status 200 and the body
  \<open>{"status": "healthy"}\<close>: one key, \<open>status\<close>, with the string \<open>healthy\<close>, whatever the
  external state is.
\<close>

theorem health_reply:
  "fst (app \<lparr>meth = GET, url_path = ''/health''\<rparr> w) = Reply 200 [(''status'', JStr ''healthy'')]"
  by (simp add: app_result health_def renderable_def)

text \<open>
  Claim C5. The health handler has no side effect and reads no external state: any two
  runs, on arbitrary and possibly different worlds, give the same answer, and each run
  leaves its world (filesystem, hostname, logging, streams, trace of operations) as it
  was.
\<close>

theorem health_pure:
  "fst (health w1) = fst (health w2) \<and> snd (health w1) = w1 \<and>
   fst (app \<lparr>meth = GET, url_path = ''/health''\<rparr> w1) =
     fst (app \<lparr>meth = GET, url_path = ''/health''\<rparr> w2) \<and>
   snd (app \<lparr>meth = GET, url_path = ''/health''\<rparr> w1) = w1"
  by (simp add: app_result app_world health_def renderable_def)

subsection \<open>The root endpoint: the returned body\<close>







text \<open>
  Claim C6, as stated: the \<open>host\<close> field is a non-empty string. The handler passes on
  what \<open>socket.gethostname()\<close> returns and checks nothing, so on a machine whose
  hostname is the empty string the field is the empty string.
\<close>

theorem root_host_counterexample:
  "hostname world_unnamed = Inr [] \<and> field ''host'' (fst (root world_unnamed)) = Some (JStr [])"
  by (simp add: root_result field_def)

text \<open>
  Claim C6, amended. Whenever the log call does not raise and hostname resolution
  succeeds, the \<open>host\<close> field of the body is a string equal to the value that
  resolution returned; it is empty exactly when that value is empty.
\<close>

theorem root_host:
  assumes "fst (logger_info ''Root endpoint called'' w) = Inr ()" and "hostname w = Inr h"
  shows "field ''host'' (fst (root w)) = Some (JStr h) \<and>
         (field ''host'' (fst (root w)) = Some (JStr [])) = (h = [])"
  using assms by (simp add: root_result field_def)

theorem root_host_witness:
  "fst (logger_info ''Root endpoint called'' world_injected) = Inr () \<and>
   hostname world_injected = Inr ''python-api-7d9f'' \<and>
   field ''host'' (fst (root world_injected)) = Some (JStr ''python-api-7d9f'') \<and>
   field ''host'' (fst (root world_injected)) \<noteq> Some (JStr [])"
  using root_host [of world_injected "''python-api-7d9f''"]
  by simp

text \<open>
  Claim C10, as stated, for every request to the root handler: the body has exactly
  the four keys. When hostname resolution fails the handler raises and there is no
  body at all.
\<close>

theorem root_body_shape_counterexample:
  "hostname world_no_hostname = Inl 14 \<and> fst (root world_no_hostname) = Inl (OSError 14)"
  by (simp add: root_result)

text \<open>
  Claim C10, amended. Whenever the root handler returns (its log call did not raise
  and hostname resolution succeeded), its body has exactly the four keys \<open>service\<close>,
  \<open>message\<close>, \<open>host\<close>, \<open>vault_injected\<close>, in that order and no others; the first
  three values are strings and the last is a boolean.
\<close>

theorem root_body_shape:
  assumes "fst (logger_info ''Root endpoint called'' w) = Inr ()" and "hostname w = Inr h"
  shows "\<exists>s m v. fst (root w) =
           Inr [(''service'', JStr s), (''message'', JStr m), (''host'', JStr h),
                (''vault_injected'', JBool v)]"
  using assms by (simp add: root_result)

theorem root_body_shape_witness:
  "fst (logger_info ''Root endpoint called'' world_plain) = Inr () \<and>
   hostname world_plain = Inr ''python-api-7d9f'' \<and>
   (\<exists>s m v. fst (root world_plain) =
      Inr [(''service'', JStr s), (''message'', JStr m), (''host'', JStr ''python-api-7d9f''),
           (''vault_injected'', JBool v)])"
  using root_body_shape [of world_plain "''python-api-7d9f''"]
  by simp

subsection \<open>The root endpoint: effects and errors\<close>




text \<open>
  Claim C8, as stated: the root handler raises only if hostname resolution fails. With
  \<open>sys.stderr\<close> closed the write of the log handler raises \<open>ValueError\<close>, the error
  report of \<open>handleError\<close> raises it again, and it leaves \<open>logger.info\<close> and the
  handler, although hostname resolution would succeed.
\<close>

theorem root_raises_iff_counterexample:
  "hostname world_stderr_closed = Inr ''python-api-7d9f'' \<and>
   fst (root world_stderr_closed) = Inl ValueError"
  by (simp add: root_result)

text \<open>
  Claim C8, amended. The root handler guards none of its calls: it raises an error
  exactly when its log call raises that error, or the log call returns and hostname
  resolution fails with that error; the error is passed on unchanged. When the log call
  returns and hostname resolution succeeds, the handler produces no error.
\<close>

theorem root_raises_iff:
  "(fst (root w) = Inl e) =
     (fst (logger_info ''Root endpoint called'' w) = Inl e \<or>
      fst (logger_info ''Root endpoint called'' w) = Inr () \<and>
      fst (socket_gethostname w) = Inl e) \<and>
   isl (fst (root w)) =
     (isl (fst (logger_info ''Root endpoint called'' w)) \<or> isl (hostname w))"
  by (cases "fst (logger_info ''Root endpoint called'' w)"; cases "hostname w")
     (auto simp: root_result socket_gethostname_def)

text \<open>
  Claim C9. The existence check never raises: whatever \<open>os.stat\<close> does on the path
  (success, \<open>OSError\<close> of any errno, \<open>ValueError\<close>), \<open>os.path.exists\<close> returns a
  boolean, true exactly when \<open>os.stat\<close> succeeded. When nothing is at the path the
  answer is false, not an error. So no error of the root handler comes from the check:
  every error the handler raises is the error of its log call or of hostname
  resolution.
\<close>

theorem exists_check_total:
  "fst (os_path_exists p w) = Inr (\<not> isl (fst (os_stat p w))) \<and>
   (fs w p = None \<longrightarrow> fst (os_path_exists p w) = Inr False) \<and>
   (fst (root w) = Inl e \<longrightarrow>
      fst (logger_info ''Root endpoint called'' w) = Inl e \<or>
      fst (socket_gethostname w) = Inl e)"
proof -
  have "fs w p = None \<longrightarrow> isl (fst (os_stat p w))"
    using os_stat_absent [of w p] by simp
  moreover have "fst (root w) = Inl e \<longrightarrow>
      fst (logger_info ''Root endpoint called'' w) = Inl e \<or>
      fst (socket_gethostname w) = Inl e"
    by (cases "fst (logger_info ''Root endpoint called'' w)"; cases "hostname w")
       (auto simp: root_result socket_gethostname_def)
  ultimately show ?thesis
    by (simp add: os_path_exists_result)
qed

theorem exists_check_total_witness:
  "fs world_plain ''/vault/secrets/config'' = None \<and>
   fst (os_path_exists ''/vault/secrets/config'' world_plain) = Inr False \<and>
   fst (os_stat ''/vault/secrets/config'' world_denied) = Inl (OSError EACCES) \<and>
   fst (os_path_exists ''/vault/secrets/config'' world_denied) = Inr False \<and>
   fst (os_path_exists ''/vault/secrets/config'' world_injected) = Inr True \<and>
   fst (root world_no_hostname) = Inl (OSError 14) \<and>
   fst (socket_gethostname world_no_hostname) = Inl (OSError 14)"
  using exists_check_total [of "''/vault/secrets/config''" world_plain "OSError 14"]
    exists_check_total [of "''/vault/secrets/config''" world_denied "OSError 14"]
    exists_check_total [of "''/vault/secrets/config''" world_injected "OSError 14"]
    exists_check_total [of "''/vault/secrets/config''" world_no_hostname "OSError 14"]
  by (simp add: root_result socket_gethostname_def)

subsection \<open>Determinism\<close>

text \<open>
  Claim C4, as stated: the same request on states with the same filesystem state for
  the vault path and the same resolved hostname gives the same response. The response
  to \<open>GET /\<close> depends also on whether the log call raises: with the same filesystem
  and hostname, a pod with \<open>sys.stderr\<close> closed answers with a server error where the
  other answers 200.
\<close>

theorem app_deterministic_counterexample:
  "fs world_injected = fs world_stderr_closed \<and>
   stat_errno world_injected = stat_errno world_stderr_closed \<and>
   hostname world_injected = hostname world_stderr_closed \<and>
   fst (app \<lparr>meth = GET, url_path = ''/''\<rparr> world_injected) =
     Reply 200 [(''service'', JStr ''python-api''),
                (''message'', JStr ''Hello from Python!''),
                (''host'', JStr ''python-api-7d9f''),
                (''vault_injected'', JBool True)] \<and>
   fst (app \<lparr>meth = GET, url_path = ''/''\<rparr> world_stderr_closed) = ServerError ValueError"
  by (simp add: app_result root_result renderable_root_body encodable_def)

text \<open>
  Claim C4, amended. Two runs of the same request on external states that agree on the
  answer of the existence check for \<open>/vault/secrets/config\<close>, on the result of hostname
  resolution, and on the logging configuration and the state of the log streams give
  the same answer, whatever else differs (other paths, file contents, the clock, what
  was written before). Serving a request changes none of these, so repeating the
  request on the state the first run left gives the same answer again. This holds for
  \<open>/\<close>, for \<open>/health\<close> and for every other request.
\<close>

theorem app_deterministic:
  assumes "fst (os_path_exists ''/vault/secrets/config'' w1) =
           fst (os_path_exists ''/vault/secrets/config'' w2)"
    and "hostname w1 = hostname w2"
    and "root_level w1 = root_level w2"
    and "root_handlers w1 = root_handlers w2"
    and "streams w1 = streams w2"
  shows "fst (app r w1) = fst (app r w2) \<and> fst (app r (snd (app r w1))) = fst (app r w1)"
proof -
  let ?msg = "''Root endpoint called''"
  have stat_eq: "isl (fst (os_stat ''/vault/secrets/config'' w1)) =
                 isl (fst (os_stat ''/vault/secrets/config'' w2))"
    using assms(1) by (simp add: os_path_exists_result)
  have log_eq: "fst (logger_info ?msg w1) = fst (logger_info ?msg w2)"
    using assms(3-5) by (rule logger_info_outcome)
  have root_eq: "fst (root w1) = fst (root w2)"
    unfolding root_result using stat_eq log_eq assms(2) by (auto split: sum.splits)
  define v where "v = snd (root w1)"
  have v_frame: "hostname v = hostname w1" "root_level v = root_level w1"
    "root_handlers v = root_handlers w1" "streams v = streams w1"
    "fst (os_stat ''/vault/secrets/config'' v) = fst (os_stat ''/vault/secrets/config'' w1)"
    unfolding v_def root_world
    by (cases "fst (logger_info ?msg w1)"; simp add: os_stat_def)+
  have log_again: "fst (logger_info ?msg v) = fst (logger_info ?msg w1)"
    using v_frame(2-4) by (rule logger_info_outcome)
  have root_again: "fst (root (snd (root w1))) = fst (root w1)"
    unfolding root_result using v_frame(1,5) log_again by (auto simp: v_def split: sum.splits)
  have health_eq: "fst (health w1) = fst (health w2)"
    "fst (health (snd (health w1))) = fst (health w1)"
    by (simp_all add: health_def)
  from find_route_cases [of "meth r" "url_path r"] show ?thesis
    using root_eq root_again health_eq by (auto simp: app_result app_world)
qed

theorem app_deterministic_witness:
  "fst (os_path_exists ''/vault/secrets/config'' world_injected) =
     fst (os_path_exists ''/vault/secrets/config'' world_injected_later) \<and>
   hostname world_injected = hostname world_injected_later \<and>
   root_level world_injected = root_level world_injected_later \<and>
   root_handlers world_injected = root_handlers world_injected_later \<and>
   streams world_injected = streams world_injected_later \<and>
   fs world_injected \<noteq> fs world_injected_later \<and>
   clock world_injected \<noteq> clock world_injected_later \<and>
   fst (app \<lparr>meth = GET, url_path = ''/''\<rparr> world_injected) =
     fst (app \<lparr>meth = GET, url_path = ''/''\<rparr> world_injected_later) \<and>
   fst (app \<lparr>meth = GET, url_path = ''/''\<rparr>
          (snd (app \<lparr>meth = GET, url_path = ''/''\<rparr> world_injected))) =
     fst (app \<lparr>meth = GET, url_path = ''/''\<rparr> world_injected)"
proof -
  have diff: "fs world_injected \<noteq> fs world_injected_later"
  proof
    assume "fs world_injected = fs world_injected_later"
    then have "fs world_injected ''/tmp'' = fs world_injected_later ''/tmp''"
      by (rule arg_cong)
    then show False by simp
  qed
  have clk: "clock world_injected \<noteq> clock world_injected_later"
    by (simp add: sample_defs)
  show ?thesis
    using app_deterministic [of world_injected world_injected_later
        "\<lparr>meth = GET, url_path = ''/''\<rparr>"] diff clk
    by (simp add: os_path_exists_result)
qed

end
